theory Spec2Isabelle
  imports Complex_Main
begin

section \<open>JavaScript values\<close>

text \<open>
  A JavaScript number is a finite double, an infinity or NaN. No arithmetic on times or
  scale factors is performed by the facade, only comparisons, so a finite double is
  represented by the real it denotes (\<open>+0\<close> and \<open>-0\<close> are the same real, as they are
  the same under \<open>===\<close>).
\<close>

datatype number = Fin real | PosInf | NegInf | NaN

text \<open>\<open>a === b\<close> on two numbers: NaN equals nothing, not even itself.\<close>

definition strict_eq_num :: "number \<Rightarrow> number \<Rightarrow> bool" where
  "strict_eq_num a b = (a \<noteq> NaN \<and> b \<noteq> NaN \<and> a = b)"

text \<open>\<open>a > 0\<close> on a number.\<close>

fun gt_zero :: "number \<Rightarrow> bool" where
  "gt_zero (Fin r) = (r > 0)"
| "gt_zero PosInf = True"
| "gt_zero NegInf = False"
| "gt_zero NaN = False"

text \<open>
  The values the facade inspects: primitives, functions (by identity), plain objects as
  property lists, arrays, and DOM elements. A DOM element carries whether it is an
  \<open>HTMLMediaElement\<close> and its \<open>clientWidth\<close>.
\<close>

datatype jsval =
    VUndefined
  | VNull
  | VBool bool
  | VNum number
  | VStr string
  | VFun nat
  | VObj "(string \<times> jsval) list"
  | VArr "jsval list"
  | VElem bool number

text \<open>Truthiness, as tested by \<open>if (v)\<close>, \<open>!v\<close>, \<open>v && ...\<close> and \<open>v || ...\<close>.\<close>

fun truthy :: "jsval \<Rightarrow> bool" where
  "truthy VUndefined = False"
| "truthy VNull = False"
| "truthy (VBool b) = b"
| "truthy (VNum n) = (n \<noteq> Fin 0 \<and> n \<noteq> NaN)"
| "truthy (VStr s) = (s \<noteq> [])"
| "truthy _ = True"

fun typeof :: "jsval \<Rightarrow> string" where
  "typeof VUndefined = ''undefined''"
| "typeof (VBool b) = ''boolean''"
| "typeof (VNum n) = ''number''"
| "typeof (VStr s) = ''string''"
| "typeof (VFun f) = ''function''"
| "typeof _ = ''object''"

fun isArray :: "jsval \<Rightarrow> bool" where
  "isArray (VArr xs) = True"
| "isArray _ = False"

fun elements :: "jsval \<Rightarrow> jsval list" where
  "elements (VArr xs) = xs"
| "elements _ = []"

text \<open>\<open>v instanceof HTMLMediaElement\<close> and \<open>v instanceof HTMLElement\<close>.\<close>

fun instanceof_HTMLMediaElement :: "jsval \<Rightarrow> bool" where
  "instanceof_HTMLMediaElement (VElem media w) = media"
| "instanceof_HTMLMediaElement _ = False"

fun instanceof_HTMLElement :: "jsval \<Rightarrow> bool" where
  "instanceof_HTMLElement (VElem media w) = True"
| "instanceof_HTMLElement _ = False"

text \<open>\<open>v[k]\<close> for a property name \<open>k\<close>, on a plain object; \<open>undefined\<close> when there is none.\<close>

fun property :: "jsval \<Rightarrow> string \<Rightarrow> jsval" where
  "property (VObj ps) k = (case map_of ps k of Some v \<Rightarrow> v | None \<Rightarrow> VUndefined)"
| "property _ k = VUndefined"

text \<open>
  \<open>v.clientWidth\<close> for a truthy \<open>v\<close>: the measured width of a DOM element, the property
  of that name of a plain object, \<open>undefined\<close> on any other truthy value.
\<close>

fun clientWidth :: "jsval \<Rightarrow> jsval" where
  "clientWidth (VElem media w) = VNum w"
| "clientWidth (VObj ps) = property (VObj ps) ''clientWidth''"
| "clientWidth _ = VUndefined"

text \<open>
  The number a value is compared as. How the engine converts a string, a function, an
  object, an array or an element to a number is the parameter \<open>conv\<close>.
\<close>

fun to_number :: "(jsval \<Rightarrow> number) \<Rightarrow> jsval \<Rightarrow> number" where
  "to_number conv VUndefined = NaN"
| "to_number conv VNull = Fin 0"
| "to_number conv (VBool b) = (if b then Fin 1 else Fin 0)"
| "to_number conv (VNum n) = n"
| "to_number conv v = conv v"

text \<open>\<open>v.clientWidth > 0\<close>.\<close>

definition clientWidth_positive :: "(jsval \<Rightarrow> number) \<Rightarrow> jsval \<Rightarrow> bool" where
  "clientWidth_positive conv v = gt_zero (to_number conv (clientWidth v))"

text \<open>\<open>xs[k]\<close> on an array or on \<open>arguments\<close>: \<open>undefined\<close> out of range.\<close>

definition at_index :: "jsval list \<Rightarrow> nat \<Rightarrow> jsval" where
  "at_index xs k = (if k < length xs then xs ! k else VUndefined)"

text \<open>\<open>n === v\<close> for a number \<open>n\<close> and any value \<open>v\<close>: false unless \<open>v\<close> is a number.\<close>

fun num_strict_eq :: "number \<Rightarrow> jsval \<Rightarrow> bool" where
  "num_strict_eq n (VNum m) = strict_eq_num n m"
| "num_strict_eq n _ = False"

text \<open>Identifiers of annotations are numbers or strings; \<open>===\<close> never equates the two kinds.\<close>

datatype ident = IdNum number | IdStr string

fun strict_eq_id :: "ident \<Rightarrow> ident \<Rightarrow> bool" where
  "strict_eq_id (IdNum a) (IdNum b) = strict_eq_num a b"
| "strict_eq_id (IdStr a) (IdStr b) = (a = b)"
| "strict_eq_id _ _ = False"

text \<open>What a call throws.\<close>

datatype error = Error string | TypeError string | RangeError string

section \<open>The instance\<close>

text \<open>
  What the instance does to its collaborators (the event emitter, the deprecation logger,
  the waveform's segment and point layers) is recorded in order in \<open>effects\<close>.
\<close>

datatype effect =
    Emit string "jsval list"
  | DeprecationLog string
  | CreateSegment jsval
  | CreatePoint jsval
  | SegmentsRender
  | UpdateSegments
  | PointsRender

type_synonym ref = nat

text \<open>
  Stored segments and points are objects: the layers' arrays hold references, and the
  fields of an object are read through the reference. Two entries are the same record
  exactly when they are the same reference. Of a stored object, the fields here are those
  the facade reads: \<open>id\<close>, and \<open>startTime\<close> and \<open>endTime\<close> or \<open>timestamp\<close>.
\<close>

record segment =
  seg_id :: ident
  startTime :: number
  endTime :: number

record point =
  point_id :: ident
  timestamp :: number

text \<open>
  The instance: \<open>options.zoomLevels\<close>, \<open>currentZoomLevel\<close>, \<open>logger\<close>, and of the
  waveform collaborator what the facade reads: the overview's scale
  (\<open>waveform.waveformOverview.data.adapter.scale\<close>), the segment layer's array
  (\<open>waveform.segments.segments\<close>) and the point layer's (\<open>waveform.points.points\<close>).
  The overview exists only once the waveform data is loaded: until then
  \<open>waveform.waveformOverview\<close> is \<open>undefined\<close> and \<open>overviewScale\<close> is \<open>None\<close>.
\<close>

record peaks =
  zoomLevels :: "number list"
  currentZoomLevel :: int
  logger :: jsval
  overviewScale :: "jsval option"
  segments :: "ref list"
  segmentObj :: "ref \<Rightarrow> segment"
  points :: "ref list"
  pointObj :: "ref \<Rightarrow> point"
  effects :: "effect list"

text \<open>\<open>self.emit(topic, args...)\<close>: listeners are outside the facade; the call is recorded.\<close>

definition emit :: "peaks \<Rightarrow> string \<Rightarrow> jsval list \<Rightarrow> peaks" where
  "emit self topic args = self\<lparr>effects := effects self @ [Emit topic args]\<rparr>"

section \<open>Zoom API\<close>

text \<open>\<open>self.options.zoomLevels[i]\<close>: reading an array out of range gives \<open>undefined\<close>.\<close>

definition zoomLevel_at :: "number list \<Rightarrow> int \<Rightarrow> jsval" where
  "zoomLevel_at zl i = (if 0 \<le> i \<and> i < int (length zl) then VNum (zl ! nat i) else VUndefined)"

definition setZoom :: "peaks \<Rightarrow> int \<Rightarrow> peaks" where
  "setZoom self zoomLevelIndex =
     (let len = int (length (zoomLevels self));
          i1 = (if zoomLevelIndex \<ge> len then len - 1 else zoomLevelIndex);
          i2 = (if i1 < 0 then 0 else i1);
          previousZoomLevel = currentZoomLevel self
      in emit (self\<lparr>currentZoomLevel := i2\<rparr>) ''zoom.update''
           [zoomLevel_at (zoomLevels self) i2, zoomLevel_at (zoomLevels self) previousZoomLevel])"

definition zoomIn :: "peaks \<Rightarrow> peaks" where
  "zoomIn self = setZoom self (currentZoomLevel self - 1)"

definition zoomOut :: "peaks \<Rightarrow> peaks" where
  "zoomOut self = setZoom self (currentZoomLevel self + 1)"

definition getZoom :: "peaks \<Rightarrow> int" where
  "getZoom self = currentZoomLevel self"

text \<open>
  Reading \<open>self.waveform.waveformOverview.data.adapter.scale\<close>: a property of
  \<open>undefined\<close> cannot be read, so the read throws a \<open>TypeError\<close> (with the engine's
  message) while the overview is not there.
\<close>

definition read_overview_scale :: "peaks \<Rightarrow> error + jsval" where
  "read_overview_scale self =
     (case overviewScale self of
        None \<Rightarrow> Inl (TypeError ''Cannot read property data of undefined'')
      | Some scale \<Rightarrow> Inr scale)"

text \<open>
  \<open>zoom.overview()\<close> and \<open>zoom.reset()\<close>. The arguments of \<open>emit\<close> are evaluated before
  the call, so nothing is emitted when the read throws.
\<close>

definition zoomToOverview :: "peaks \<Rightarrow> (error + unit) \<times> peaks" where
  "zoomToOverview self =
     (case read_overview_scale self of
        Inl e \<Rightarrow> (Inl e, self)
      | Inr scale \<Rightarrow>
          (Inr (), emit self ''zoom.update''
                     [scale, zoomLevel_at (zoomLevels self) (currentZoomLevel self)]))"

definition resetOverview :: "peaks \<Rightarrow> (error + unit) \<times> peaks" where
  "resetOverview self =
     (case read_overview_scale self of
        Inl e \<Rightarrow> (Inl e, self)
      | Inr scale \<Rightarrow>
          (Inr (), emit self ''zoom.update''
                     [zoomLevel_at (zoomLevels self) (currentZoomLevel self), scale]))"

text \<open>Sequences of zoom operations, and the states reached after each of them.\<close>

datatype zoom_op = SetZoom int | ZoomIn | ZoomOut

fun zoom_step :: "peaks \<Rightarrow> zoom_op \<Rightarrow> peaks" where
  "zoom_step self (SetZoom i) = setZoom self i"
| "zoom_step self ZoomIn = zoomIn self"
| "zoom_step self ZoomOut = zoomOut self"

fun states_after :: "peaks \<Rightarrow> zoom_op list \<Rightarrow> peaks list" where
  "states_after self [] = []"
| "states_after self (op # ops) = zoom_step self op # states_after (zoom_step self op) ops"

section \<open>Segments and points API: removal\<close>

text \<open>
  \<open>xs.forEach(f)\<close> where \<open>f\<close> may throw: the first exception ends the loop and is the
  outcome of the whole call; the state is the one reached so far.
\<close>

fun forEach :: "('a \<Rightarrow> 's \<Rightarrow> (error + 'b) \<times> 's) \<Rightarrow> 'a list \<Rightarrow> 's \<Rightarrow> (error + unit) \<times> 's" where
  "forEach f [] s = (Inr (), s)"
| "forEach f (x # xs) s =
     (case f x s of
        (Inl e, s') \<Rightarrow> (Inl e, s')
      | (Inr r, s') \<Rightarrow> forEach f xs s')"

text \<open>
  Modelled from the spec: \<open>self.waveform.segments.remove(segment)\<close> and
  \<open>self.waveform.points.remove(point)\<close> belong to the waveform layers, which are not among
  the sources. The spec has the record located by identity within the ordered sequence
  and a lookup failure when there is none; the facade tests the result against \<open>null\<close>
  and uses it as an index into the layer's array. So the lookup returns the index of the
  first entry that is the given reference, or \<open>null\<close> (\<open>None\<close>), and leaves the array as
  it is.
\<close>

fun layer_remove :: "ref list \<Rightarrow> ref \<Rightarrow> nat option" where
  "layer_remove [] x = None"
| "layer_remove (y # ys) x =
     (if y = x then Some 0 else map_option Suc (layer_remove ys x))"

text \<open>
  \<open>xs.splice(index, 1).pop()\<close>: the array without the entry at \<open>index\<close>, and that entry
  (\<open>undefined\<close> when \<open>index\<close> is past the end, where nothing is removed).
\<close>

definition splice_pop :: "'a list \<Rightarrow> nat \<Rightarrow> 'a option \<times> 'a list" where
  "splice_pop xs index =
     ((case take 1 (drop index xs) of [] \<Rightarrow> None | x # _ \<Rightarrow> Some x),
      take index xs @ drop (Suc index) xs)"

text \<open>
  \<open>segments.remove(segment)\<close>. The argument is a reference to an object; \<open>String\<close> of
  an object is \<open>[object Object]\<close>.
\<close>

definition segments_remove :: "peaks \<Rightarrow> ref \<Rightarrow> (error + ref option) \<times> peaks" where
  "segments_remove self segment =
     (case layer_remove (segments self) segment of
        None \<Rightarrow>
          (Inl (RangeError (''Unable to find the requested segment'' @ ''[object Object]'')), self)
      | Some index \<Rightarrow>
          (let self1 = self\<lparr>effects := effects self @ [UpdateSegments]\<rparr>;
               (removed, rest) = splice_pop (segments self1) index
           in (Inr removed, self1\<lparr>segments := rest\<rparr>)))"

definition segments_removeById :: "peaks \<Rightarrow> ident \<Rightarrow> (error + unit) \<times> peaks" where
  "segments_removeById self segmentId =
     forEach (\<lambda>segment s. segments_remove s segment)
       (filter (\<lambda>segment. strict_eq_id (seg_id (segmentObj self segment)) segmentId)
          (segments self))
       self"

text \<open>
  \<open>segments.removeByTime(startTime, endTime)\<close>; both arguments are any values, an omitted
  one is \<open>undefined\<close>.
\<close>

definition segments_removeByTime :: "peaks \<Rightarrow> jsval \<Rightarrow> jsval \<Rightarrow> (error + nat) \<times> peaks" where
  "segments_removeByTime self startTime0 endTime0 =
     (let endTime1 = (if typeof endTime0 = ''number'' then endTime0 else VNum (Fin 0));
          fnFilter =
            (if (case endTime1 of VNum n \<Rightarrow> gt_zero n | _ \<Rightarrow> False)
             then (\<lambda>segment. num_strict_eq (startTime (segmentObj self segment)) startTime0 \<and>
                               num_strict_eq (endTime (segmentObj self segment)) endTime1)
             else (\<lambda>segment. num_strict_eq (startTime (segmentObj self segment)) startTime0));
          matchingSegments = filter fnFilter (segments self)
      in case forEach (\<lambda>segment s. segments_remove s segment) matchingSegments self of
           (Inl e, s') \<Rightarrow> (Inl e, s')
         | (Inr u, s') \<Rightarrow> (Inr (length matchingSegments), s'))"

text \<open>\<open>points.remove(point)\<close>: the layer is rendered before the entry is spliced out.\<close>

definition points_remove :: "peaks \<Rightarrow> ref \<Rightarrow> (error + ref option) \<times> peaks" where
  "points_remove self point =
     (case layer_remove (points self) point of
        None \<Rightarrow>
          (Inl (RangeError (''Unable to find the requested point'' @ ''[object Object]'')), self)
      | Some index \<Rightarrow>
          (let self1 = self\<lparr>effects := effects self @ [PointsRender]\<rparr>;
               (removed, rest) = splice_pop (points self1) index
           in (Inr removed, self1\<lparr>points := rest\<rparr>)))"

definition points_removeByTime :: "peaks \<Rightarrow> jsval \<Rightarrow> (error + nat) \<times> peaks" where
  "points_removeByTime self timestamp0 =
     (let matchingPoints =
            filter (\<lambda>point. num_strict_eq (timestamp (pointObj self point)) timestamp0)
              (points self)
      in case forEach (\<lambda>point s. points_remove s point) matchingPoints self of
           (Inl e, s') \<Rightarrow> (Inl e, s')
         | (Inr u, s') \<Rightarrow> (Inr (length matchingPoints), s'))"

definition points_removeById :: "peaks \<Rightarrow> ident \<Rightarrow> (error + unit) \<times> peaks" where
  "points_removeById self pointId =
     forEach (\<lambda>point s. points_remove s point)
       (filter (\<lambda>point. strict_eq_id (point_id (pointObj self point)) pointId)
          (points self))
       self"

section \<open>Segments and points API: batch add\<close>

text \<open>
  \<open>self.options.deprecationLogger(message)\<close>. The deprecation logger is a function
  (\<open>console.log\<close> when none is configured); the call is recorded.
\<close>

definition deprecationLogger :: "peaks \<Rightarrow> string \<Rightarrow> peaks" where
  "deprecationLogger self message = self\<lparr>effects := effects self @ [DeprecationLog message]\<rparr>"

text \<open>
  \<open>createSegment\<close> and \<open>createPoint\<close> belong to the waveform layers and are parameters
  here: given the instance and the record specification, a creator either throws or gives
  the layer's new array and objects. The facade's call of a creator is recorded, whatever
  its outcome.
\<close>

type_synonym 'o creator = "peaks \<Rightarrow> jsval \<Rightarrow> error + (ref list \<times> (ref \<Rightarrow> 'o))"

definition call_createSegment :: "segment creator \<Rightarrow> jsval \<Rightarrow> peaks \<Rightarrow> (error + unit) \<times> peaks" where
  "call_createSegment createSegment options self =
     (let self1 = self\<lparr>effects := effects self @ [CreateSegment options]\<rparr>
      in case createSegment self options of
           Inl e \<Rightarrow> (Inl e, self1)
         | Inr (array, objects) \<Rightarrow> (Inr (), self1\<lparr>segments := array, segmentObj := objects\<rparr>))"


text \<open>
  \<open>Array.isArray(arguments[0]) ? arguments[0] : Array.prototype.slice.call(arguments)\<close>:
  the records of the batch.
\<close>

definition batch_of :: "jsval list \<Rightarrow> jsval list" where
  "batch_of arguments =
     (if isArray (at_index arguments 0) then elements (at_index arguments 0) else arguments)"

text \<open>\<open>typeof segments[0] === "number"\<close>, on the records of the batch.\<close>

definition legacy_call :: "jsval list \<Rightarrow> bool" where
  "legacy_call arguments = (typeof (at_index (batch_of arguments) 0) = ''number'')"

text \<open>The record built from the positional arguments of a legacy call.\<close>

definition legacy_segment :: "jsval list \<Rightarrow> jsval" where
  "legacy_segment arguments =
     VObj [(''startTime'', at_index arguments 0),
           (''endTime'', at_index arguments 1),
           (''editable'', at_index arguments 2),
           (''color'', at_index arguments 3),
           (''labelText'', at_index arguments 4)]"


definition addSegment_notice :: string where
  "addSegment_notice =
     ''[Peaks.segments.addSegment] Passing spread-arguments to addSegment is deprecated, please pass a single object''"


text \<open>\<open>segments.add\<close> (also \<open>segments.addSegment\<close>), called with the list of its arguments.\<close>

definition addSegment :: "segment creator \<Rightarrow> peaks \<Rightarrow> jsval list \<Rightarrow> (error + unit) \<times> peaks" where
  "addSegment createSegment self arguments =
     (let self1 = (if legacy_call arguments then deprecationLogger self addSegment_notice else self);
          segments1 = (if legacy_call arguments then [legacy_segment arguments]
                       else batch_of arguments)
      in case forEach (call_createSegment createSegment) segments1 self1 of
           (Inl e, s') \<Rightarrow> (Inl e, s')
         | (Inr u, s') \<Rightarrow> (Inr (), s'\<lparr>effects := effects s' @ [SegmentsRender]\<rparr>))"





section \<open>Initialisation\<close>

text \<open>
  The options \<open>Peaks.init\<close> inspects. A key that is not given reads \<open>undefined\<close>; for
  \<open>template\<close> and \<open>zoomLevels\<close>, which have defaults, \<open>None\<close> is a key that is not
  given. No options at all (\<open>opts || {}\<close>) is every key not given.
\<close>

record init_options =
  opt_audioElement :: jsval
  opt_mediaElement :: jsval
  opt_container :: jsval
  opt_logger :: jsval
  opt_template :: "jsval option"
  opt_zoomLevels :: "number list option"

definition default_zoomLevels :: "number list" where
  "default_zoomLevels = [Fin 512, Fin 1024, Fin 2048, Fin 4096]"

definition default_template :: jsval where
  \<open>default_template =
     VStr (''<div class="waveform">'' @
           ''<div class="zoom-container"></div>'' @
           ''<div class="overview-container"></div>'' @
           ''</div>'')\<close>

text \<open>\<open>console.error.bind(console)\<close>, the logger of a new instance.\<close>

definition console_error :: jsval where
  "console_error = VFun 0"

text \<open>
  \<open>new Peaks(container)\<close> followed by the two \<open>extend\<close> calls and the logger set-up:
  the instance before the layout is set up. Its waveform is not loaded yet.
\<close>

definition new_instance :: "init_options \<Rightarrow> peaks" where
  "new_instance opts =
     \<lparr>zoomLevels = (case opt_zoomLevels opts of None \<Rightarrow> default_zoomLevels | Some zl \<Rightarrow> zl),
      currentZoomLevel = 0,
      logger = (if truthy (opt_logger opts) then opt_logger opts else console_error),
      overviewScale = None,
      segments = [],
      segmentObj = (\<lambda>r. \<lparr>seg_id = IdNum (Fin 0), startTime = Fin 0, endTime = Fin 0\<rparr>),
      points = [],
      pointObj = (\<lambda>r. \<lparr>point_id = IdNum (Fin 0), timestamp = Fin 0\<rparr>),
      effects = []\<rparr>"

text \<open>
  \<open>Peaks.init(opts)\<close>: what it throws or the instance it returns, and what it logged
  through the deprecation logger; \<open>conv\<close> is the engine's conversion to numbers, used
  by the comparison of the container's width. The message of the template error ends with the
  template's string form, which is left out. Setting up the keyboard, the player and the
  waveform, which follows the template check, is the collaborators' part.
\<close>

definition init :: "(jsval \<Rightarrow> number) \<Rightarrow> init_options \<Rightarrow> (error + peaks) \<times> effect list" where
  "init conv opts =
     (let (mediaElement, logged) =
            (if truthy (opt_audioElement opts)
             then (opt_audioElement opts,
                   [DeprecationLog ''[Peaks.init] `audioElement` option is deprecated. Please use `mediaElement` instead.''])
             else (opt_mediaElement opts, []))
      in if \<not> truthy mediaElement
         then (Inl (Error ''[Peaks.init] Please provide an audio element.''), logged)
         else if \<not> instanceof_HTMLMediaElement mediaElement
         then (Inl (TypeError ''[Peaks.init] The mediaElement option should be an HTMLMediaElement.''), logged)
         else if \<not> truthy (opt_container opts)
         then (Inl (Error ''[Peaks.init] Please provide a container object.''), logged)
         else if \<not> clientWidth_positive conv (opt_container opts)
         then (Inl (TypeError ''[Peaks.init] Please ensure that the container has a width.''), logged)
         else if truthy (opt_logger opts) \<and> typeof (opt_logger opts) \<noteq> ''function''
         then (Inl (TypeError ''[Peaks.init] The `logger` option should be a function.''), logged)
         else (let instance = new_instance opts;
                   template = (case opt_template opts of None \<Rightarrow> default_template | Some v \<Rightarrow> v)
               in if typeof template = ''string'' \<or> instanceof_HTMLElement template
                  then (Inr instance, logged)
                  else (Inl (TypeError ''Please ensure you provide an HTML string or a DOM template as `template` instance option. Provided: ''),
                        logged)))"

text \<open>
  Valid options, and the same with an empty string as the logger. In the examples no
  string or object is compared as a number; the conversion given for them is constant.
\<close>

definition no_conversion :: "jsval \<Rightarrow> number" where
  "no_conversion v = NaN"

definition valid_options :: init_options where
  "valid_options =
     \<lparr>opt_audioElement = VUndefined,
      opt_mediaElement = VElem True (Fin 300),
      opt_container = VElem False (Fin 1000),
      opt_logger = VUndefined,
      opt_template = None,
      opt_zoomLevels = None\<rparr>"

definition empty_string_logger :: init_options where
  "empty_string_logger = valid_options\<lparr>opt_logger := VStr []\<rparr>"

text \<open>An instance with the default zoom levels and nothing stored.\<close>

definition demo :: peaks where
  "demo = \<lparr>zoomLevels = [Fin 512, Fin 1024, Fin 2048, Fin 4096],
            currentZoomLevel = 0,
            logger = VFun 0,
            overviewScale = Some (VNum (Fin 8192)),
            segments = [],
            segmentObj = (\<lambda>_. \<lparr>seg_id = IdNum (Fin 0), startTime = Fin 0, endTime = Fin 0\<rparr>),
            points = [],
            pointObj = (\<lambda>_. \<lparr>point_id = IdNum (Fin 0), timestamp = Fin 0\<rparr>),
            effects = []\<rparr>"

text \<open>The same instance with three segments and two points stored.\<close>

definition annotated :: peaks where
  "annotated =
     demo\<lparr>segments := [10, 20, 30],
          segmentObj := (\<lambda>r. if r = 10 then \<lparr>seg_id = IdStr ''a'', startTime = Fin 10, endTime = Fin 20\<rparr>
                             else if r = 20 then \<lparr>seg_id = IdStr ''b'', startTime = Fin 10, endTime = Fin 30\<rparr>
                             else \<lparr>seg_id = IdStr ''a'', startTime = Fin 15, endTime = Fin 20\<rparr>),
          points := [40, 50],
          pointObj := (\<lambda>r. if r = 40 then \<lparr>point_id = IdNum (Fin 7), timestamp = Fin 2.5\<rparr>
                           else \<lparr>point_id = IdNum (Fin 8), timestamp = Fin 4\<rparr>)\<rparr>"









section \<open>Properties of the zoom API\<close>

lemma clamp_eq:
  "(if (if l \<le> i then l - 1 else i) < 0 then 0 else (if l \<le> i then l - 1 else i)) =
     max 0 (min (l - 1) (i::int))"
  by auto

lemma setZoom_eq:
  "setZoom s i =
     s\<lparr>currentZoomLevel := max 0 (min (int (length (zoomLevels s)) - 1) i),
       effects := effects s @ [Emit ''zoom.update''
         [zoomLevel_at (zoomLevels s) (max 0 (min (int (length (zoomLevels s)) - 1) i)),
          zoomLevel_at (zoomLevels s) (currentZoomLevel s)]]\<rparr>"
  unfolding setZoom_def Let_def emit_def by (simp only: clamp_eq) simp

lemma setZoom_zoomLevels [simp]: "zoomLevels (setZoom s i) = zoomLevels s"
  by (simp add: setZoom_eq)

lemma setZoom_current:
  "currentZoomLevel (setZoom s i) = max 0 (min (int (length (zoomLevels s)) - 1) i)"
  by (simp add: setZoom_eq)

lemma zoom_step_zoomLevels [simp]: "zoomLevels (zoom_step s op) = zoomLevels s"
  by (cases op) (simp_all add: zoomIn_def zoomOut_def)

lemma zoom_step_in_range:
  assumes "zoomLevels s \<noteq> []"
  shows "0 \<le> currentZoomLevel (zoom_step s op) \<and>
         currentZoomLevel (zoom_step s op) < int (length (zoomLevels s))"
  using assms by (cases op) (auto simp add: zoomIn_def zoomOut_def setZoom_current)

lemma states_after_in_range:
  "zoomLevels s \<noteq> [] \<Longrightarrow> s' \<in> set (states_after s ops) \<Longrightarrow>
     zoomLevels s' = zoomLevels s \<and> 0 \<le> currentZoomLevel s' \<and>
     currentZoomLevel s' < int (length (zoomLevels s))"
proof (induction ops arbitrary: s)
  case Nil
  then show ?case by simp
next
  case (Cons op ops)
  from Cons.prems(2) consider "s' = zoom_step s op" | "s' \<in> set (states_after (zoom_step s op) ops)"
    by auto
  then show ?case
  proof cases
    case 1
    with Cons.prems(1) show ?thesis using zoom_step_in_range [of s op] by simp
  next
    case 2
    with Cons.IH [of "zoom_step s op"] Cons.prems(1) show ?thesis by simp
  qed
qed

text \<open>
  Claim C1. With a non-empty \<open>zoomLevels\<close> list, after each operation of any sequence of
  \<open>setZoom\<close> (any integer argument), \<open>zoomIn\<close> and \<open>zoomOut\<close> calls, started in any
  state, \<open>0 \<le> currentZoomLevel < len(zoomLevels)\<close>; and \<open>setZoom\<close> of an index below
  \<open>0\<close> leaves \<open>getZoom()\<close> at \<open>0\<close>, of an index above \<open>len - 1\<close> at \<open>len - 1\<close>.
\<close>

theorem zoom_index_in_range:
  assumes "zoomLevels s \<noteq> []"
  shows "(\<forall>s' \<in> set (states_after s ops).
            0 \<le> getZoom s' \<and> getZoom s' < int (length (zoomLevels s')))
       \<and> (i < 0 \<longrightarrow> getZoom (setZoom s i) = 0)
       \<and> (i > int (length (zoomLevels s)) - 1 \<longrightarrow>
            getZoom (setZoom s i) = int (length (zoomLevels s)) - 1)"
proof (intro conjI ballI impI)
  fix s' assume "s' \<in> set (states_after s ops)"
  with assms states_after_in_range [of s s' ops]
  show "0 \<le> getZoom s'" and "getZoom s' < int (length (zoomLevels s'))"
    by (simp_all add: getZoom_def)
next
  assume "i < 0"
  then show "getZoom (setZoom s i) = 0" by (simp add: getZoom_def setZoom_current)
next
  assume "i > int (length (zoomLevels s)) - 1"
  with assms show "getZoom (setZoom s i) = int (length (zoomLevels s)) - 1"
    by (simp add: getZoom_def setZoom_current)
qed

text \<open>The claim at the default zoom levels, on a sequence that leaves the range on both sides.\<close>

theorem zoom_index_in_range_witness:
  "zoomLevels demo \<noteq> []
   \<and> map getZoom (states_after demo [ZoomIn, SetZoom 7, ZoomOut, SetZoom 2, ZoomIn, SetZoom (- 3)])
       = [0, 3, 3, 2, 1, 0]
   \<and> list_all (\<lambda>s'. 0 \<le> getZoom s' \<and> getZoom s' < int (length (zoomLevels s')))
       (states_after demo [ZoomIn, SetZoom 7, ZoomOut, SetZoom 2, ZoomIn, SetZoom (- 3)])
   \<and> getZoom (setZoom demo (- 3)) = 0
   \<and> getZoom (setZoom demo 7) = 3"
proof -
  have ne: "zoomLevels demo \<noteq> []" by (simp add: demo_def)
  have vals: "map getZoom (states_after demo [ZoomIn, SetZoom 7, ZoomOut, SetZoom 2, ZoomIn, SetZoom (- 3)])
       = [0, 3, 3, 2, 1, 0]"
    by (simp add: demo_def zoomIn_def zoomOut_def setZoom_current getZoom_def)
  from zoom_index_in_range [OF ne, of "[ZoomIn, SetZoom 7, ZoomOut, SetZoom 2, ZoomIn, SetZoom (- 3)]" "- 3"]
       zoom_index_in_range [OF ne, of "[]" 7]
  show ?thesis using ne vals by (simp add: list_all_iff demo_def)
qed

text \<open>
  Claim C2. Every call \<open>setZoom(index)\<close> returns (nothing is rejected); the state after it is
  the state before with \<open>currentZoomLevel\<close> set to the index clamped by \<open>max 0 (min (len - 1) index)\<close>
  and exactly one \<open>zoom.update\<close> event appended, carrying \<open>zoomLevels[clamped]\<close> and
  \<open>zoomLevels[previous]\<close> in this order. The clamped index lies in \<open>[0, len - 1]\<close> when that
  interval is not empty, that is when \<open>zoomLevels\<close> is not empty.
\<close>

theorem setZoom_clamps_and_emits:
  "setZoom s i =
     s\<lparr>currentZoomLevel := max 0 (min (int (length (zoomLevels s)) - 1) i),
       effects := effects s @ [Emit ''zoom.update''
         [zoomLevel_at (zoomLevels s) (max 0 (min (int (length (zoomLevels s)) - 1) i)),
          zoomLevel_at (zoomLevels s) (currentZoomLevel s)]]\<rparr>
   \<and> getZoom (setZoom s i) = max 0 (min (int (length (zoomLevels s)) - 1) i)
   \<and> (zoomLevels s \<noteq> [] \<longrightarrow>
        0 \<le> getZoom (setZoom s i) \<and> getZoom (setZoom s i) \<le> int (length (zoomLevels s)) - 1)"
  by (auto simp add: setZoom_eq getZoom_def)

text \<open>From index 1, \<open>setZoom(9)\<close> on four zoom levels goes to index 3 and emits \<open>(4096, 1024)\<close>.\<close>

theorem setZoom_clamps_and_emits_witness:
  "setZoom (demo\<lparr>currentZoomLevel := 1\<rparr>) 9 =
     demo\<lparr>currentZoomLevel := 3,
          effects := [Emit ''zoom.update'' [VNum (Fin 4096), VNum (Fin 1024)]]\<rparr>
   \<and> getZoom (setZoom (demo\<lparr>currentZoomLevel := 1\<rparr>) 9) = 3
   \<and> zoomLevels (demo\<lparr>currentZoomLevel := 1\<rparr>) \<noteq> []"
  using setZoom_clamps_and_emits [of "demo\<lparr>currentZoomLevel := 1\<rparr>" 9]
  by (simp add: demo_def zoomLevel_at_def getZoom_def)

lemma zoomIn_current:
  assumes "currentZoomLevel s < int (length (zoomLevels s))"
  shows "currentZoomLevel (zoomIn s) = max 0 (currentZoomLevel s - 1)"
  using assms by (simp add: zoomIn_def setZoom_current)

lemma zoomIn_zoomLevels [simp]: "zoomLevels (zoomIn s) = zoomLevels s"
  by (simp add: zoomIn_def)

lemma zoomIn_funpow:
  assumes "0 \<le> currentZoomLevel s" and "currentZoomLevel s < int (length (zoomLevels s))"
  shows "zoomLevels ((zoomIn ^^ n) s) = zoomLevels s \<and>
         currentZoomLevel ((zoomIn ^^ n) s) = max 0 (currentZoomLevel s - int n)"
proof (induction n)
  case 0
  from assms show ?case by simp
next
  case (Suc n)
  let ?t = "(zoomIn ^^ n) s"
  from assms have "max 0 (currentZoomLevel s - int n) < int (length (zoomLevels s))"
    by linarith
  with Suc have lt: "currentZoomLevel ?t < int (length (zoomLevels ?t))" by simp
  from Suc show ?case using zoomIn_current [OF lt] by simp
qed

text \<open>
  Claim C7. \<open>zoomIn()\<close> is \<open>setZoom(currentZoomLevel - 1)\<close> and \<open>zoomOut()\<close> is
  \<open>setZoom(currentZoomLevel + 1)\<close>; from any valid index, \<open>len(zoomLevels)\<close> calls of
  \<open>zoomIn()\<close> followed by any number \<open>k\<close> of further calls end with \<open>getZoom() = 0\<close>.
\<close>

theorem zoomIn_zoomOut_sugar:
  "zoomIn s = setZoom s (currentZoomLevel s - 1)
   \<and> zoomOut s = setZoom s (currentZoomLevel s + 1)
   \<and> (0 \<le> currentZoomLevel s \<and> currentZoomLevel s < int (length (zoomLevels s)) \<longrightarrow>
        getZoom ((zoomIn ^^ (length (zoomLevels s) + k)) s) = 0)"
proof (intro conjI impI)
  assume "0 \<le> currentZoomLevel s \<and> currentZoomLevel s < int (length (zoomLevels s))"
  then show "getZoom ((zoomIn ^^ (length (zoomLevels s) + k)) s) = 0"
    using zoomIn_funpow [of s "length (zoomLevels s) + k"] by (simp add: getZoom_def)
qed (simp_all add: zoomIn_def zoomOut_def)

text \<open>From the last of four zoom levels: four calls reach index 0, two more stay there.\<close>

theorem zoomIn_zoomOut_sugar_witness:
  "zoomIn (demo\<lparr>currentZoomLevel := 3\<rparr>) = setZoom (demo\<lparr>currentZoomLevel := 3\<rparr>) 2
   \<and> zoomOut (demo\<lparr>currentZoomLevel := 3\<rparr>) = setZoom (demo\<lparr>currentZoomLevel := 3\<rparr>) 4
   \<and> getZoom ((zoomIn ^^ 4) (demo\<lparr>currentZoomLevel := 3\<rparr>)) = 0
   \<and> getZoom ((zoomIn ^^ 6) (demo\<lparr>currentZoomLevel := 3\<rparr>)) = 0"
proof -
  let ?d = "demo\<lparr>currentZoomLevel := 3\<rparr>"
  have valid: "0 \<le> currentZoomLevel ?d \<and> currentZoomLevel ?d < int (length (zoomLevels ?d))"
    by (simp add: demo_def)
  have l4: "length (zoomLevels ?d) + 0 = 4" and l6: "length (zoomLevels ?d) + 2 = 6"
    by (simp_all add: demo_def)
  from zoomIn_zoomOut_sugar [of ?d 0] valid
  have "getZoom ((zoomIn ^^ (length (zoomLevels ?d) + 0)) ?d) = 0" by blast
  then have four: "getZoom ((zoomIn ^^ 4) ?d) = 0" by (simp only: l4)
  from zoomIn_zoomOut_sugar [of ?d 2] valid
  have "getZoom ((zoomIn ^^ (length (zoomLevels ?d) + 2)) ?d) = 0" by blast
  then have six: "getZoom ((zoomIn ^^ 6) ?d) = 0" by (simp only: l6)
  have cur: "currentZoomLevel ?d = 3" by simp
  from zoomIn_zoomOut_sugar [of ?d 0]
  have "zoomIn ?d = setZoom ?d (currentZoomLevel ?d - 1)"
    and "zoomOut ?d = setZoom ?d (currentZoomLevel ?d + 1)" by blast+
  then have "zoomIn ?d = setZoom ?d 2" and "zoomOut ?d = setZoom ?d 4"
    by (simp_all only: cur) simp_all
  with four six show ?thesis by blast
qed

text \<open>
  Claim C8, amended. Once the waveform overview is loaded, \<open>overview()\<close> and \<open>reset()\<close>
  each append one \<open>zoom.update\<close> event and change nothing else of the instance:
  \<open>overview()\<close> carries the overview scale of the waveform data as the new scale factor
  (and \<open>zoomLevels[currentZoomLevel]\<close> as the previous one), \<open>reset()\<close> carries them the
  other way round. While the overview is not loaded, each call throws a \<open>TypeError\<close>,
  emits nothing and leaves the instance as it is. In both cases \<open>getZoom()\<close> is the same
  before and after.
\<close>

theorem overview_reset_frame:
  "(overviewScale s = Some scale \<longrightarrow>
      zoomToOverview s =
        (Inr (), s\<lparr>effects := effects s @ [Emit ''zoom.update''
                    [scale, zoomLevel_at (zoomLevels s) (currentZoomLevel s)]]\<rparr>)
      \<and> resetOverview s =
        (Inr (), s\<lparr>effects := effects s @ [Emit ''zoom.update''
                    [zoomLevel_at (zoomLevels s) (currentZoomLevel s), scale]]\<rparr>))
   \<and> (overviewScale s = None \<longrightarrow>
      zoomToOverview s = (Inl (TypeError ''Cannot read property data of undefined''), s)
      \<and> resetOverview s = (Inl (TypeError ''Cannot read property data of undefined''), s))
   \<and> getZoom (snd (zoomToOverview s)) = getZoom s
   \<and> getZoom (snd (resetOverview s)) = getZoom s"
  by (cases "overviewScale s")
    (simp_all add: zoomToOverview_def resetOverview_def read_overview_scale_def emit_def getZoom_def)

text \<open>
  At index 2 of the default zoom levels, with an overview scale of 8192, and on the same
  instance without its overview.
\<close>

theorem overview_reset_frame_witness:
  "zoomToOverview (demo\<lparr>currentZoomLevel := 2\<rparr>) =
     (Inr (), demo\<lparr>currentZoomLevel := 2,
                   effects := [Emit ''zoom.update'' [VNum (Fin 8192), VNum (Fin 2048)]]\<rparr>)
   \<and> resetOverview (demo\<lparr>currentZoomLevel := 2\<rparr>) =
     (Inr (), demo\<lparr>currentZoomLevel := 2,
                   effects := [Emit ''zoom.update'' [VNum (Fin 2048), VNum (Fin 8192)]]\<rparr>)
   \<and> zoomToOverview (demo\<lparr>currentZoomLevel := 2, overviewScale := None\<rparr>) =
     (Inl (TypeError ''Cannot read property data of undefined''),
      demo\<lparr>currentZoomLevel := 2, overviewScale := None\<rparr>)
   \<and> resetOverview (demo\<lparr>currentZoomLevel := 2, overviewScale := None\<rparr>) =
     (Inl (TypeError ''Cannot read property data of undefined''),
      demo\<lparr>currentZoomLevel := 2, overviewScale := None\<rparr>)
   \<and> getZoom (snd (zoomToOverview (demo\<lparr>currentZoomLevel := 2\<rparr>))) = 2
   \<and> getZoom (snd (resetOverview (demo\<lparr>currentZoomLevel := 2\<rparr>))) = 2"
  using overview_reset_frame [of "demo\<lparr>currentZoomLevel := 2\<rparr>" "VNum (Fin 8192)"]
        overview_reset_frame [of "demo\<lparr>currentZoomLevel := 2, overviewScale := None\<rparr>" VUndefined]
  by (simp add: demo_def zoomLevel_at_def getZoom_def)

text \<open>
  The instance \<open>Peaks.init\<close> returns has no overview yet: on it \<open>overview()\<close> and
  \<open>reset()\<close> throw and no \<open>zoom.update\<close> event is emitted.
\<close>

theorem overview_not_loaded_counterexample:
  "init no_conversion valid_options = (Inr (new_instance valid_options), [])
   \<and> fst (zoomToOverview (new_instance valid_options)) =
       Inl (TypeError ''Cannot read property data of undefined'')
   \<and> effects (snd (zoomToOverview (new_instance valid_options))) = []
   \<and> fst (resetOverview (new_instance valid_options)) =
       Inl (TypeError ''Cannot read property data of undefined'')
   \<and> effects (snd (resetOverview (new_instance valid_options))) = []"
  by (simp add: init_def valid_options_def new_instance_def default_template_def Let_def
      clientWidth_positive_def zoomToOverview_def resetOverview_def read_overview_scale_def)

text \<open>
  Claim C10. Every call of \<open>setZoom\<close> appends exactly one \<open>zoom.update\<close> event; when the
  clamped index equals the current one, the only change of the instance is that event, and
  it carries the same scale factor twice. So do \<open>zoomIn()\<close> at index \<open>0\<close> and \<open>zoomOut()\<close>
  at index \<open>len - 1\<close>.
\<close>

theorem setZoom_always_emits:
  "effects (setZoom s i) =
     effects s @ [Emit ''zoom.update''
       [zoomLevel_at (zoomLevels s) (getZoom (setZoom s i)),
        zoomLevel_at (zoomLevels s) (getZoom s)]]
   \<and> (getZoom (setZoom s i) = getZoom s \<longrightarrow>
        setZoom s i =
          s\<lparr>effects := effects s @ [Emit ''zoom.update''
            [zoomLevel_at (zoomLevels s) (getZoom s), zoomLevel_at (zoomLevels s) (getZoom s)]]\<rparr>)
   \<and> (zoomLevels s \<noteq> [] \<and> getZoom s = 0 \<longrightarrow>
        zoomIn s =
          s\<lparr>effects := effects s @ [Emit ''zoom.update''
            [VNum (hd (zoomLevels s)), VNum (hd (zoomLevels s))]]\<rparr>)
   \<and> (zoomLevels s \<noteq> [] \<and> getZoom s = int (length (zoomLevels s)) - 1 \<longrightarrow>
        zoomOut s =
          s\<lparr>effects := effects s @ [Emit ''zoom.update''
            [VNum (last (zoomLevels s)), VNum (last (zoomLevels s))]]\<rparr>)"
proof (intro conjI impI)
  show "effects (setZoom s i) =
     effects s @ [Emit ''zoom.update''
       [zoomLevel_at (zoomLevels s) (getZoom (setZoom s i)),
        zoomLevel_at (zoomLevels s) (getZoom s)]]"
    by (simp add: getZoom_def setZoom_eq)
next
  assume same: "getZoom (setZoom s i) = getZoom s"
  then have "max 0 (min (int (length (zoomLevels s)) - 1) i) = currentZoomLevel s"
    by (simp add: getZoom_def setZoom_current)
  then show "setZoom s i =
          s\<lparr>effects := effects s @ [Emit ''zoom.update''
            [zoomLevel_at (zoomLevels s) (getZoom s), zoomLevel_at (zoomLevels s) (getZoom s)]]\<rparr>"
    by (simp add: setZoom_eq getZoom_def)
next
  assume a: "zoomLevels s \<noteq> [] \<and> getZoom s = 0"
  then have z: "zoomLevel_at (zoomLevels s) 0 = VNum (hd (zoomLevels s))"
    by (simp add: zoomLevel_at_def hd_conv_nth)
  from a have c: "currentZoomLevel s = 0" by (simp add: getZoom_def)
  have m: "max 0 (min (int (length (zoomLevels s)) - 1) (- 1)) = 0" by simp
  have "s\<lparr>currentZoomLevel := 0\<rparr> = s" using c by simp
  then show "zoomIn s =
          s\<lparr>effects := effects s @ [Emit ''zoom.update''
            [VNum (hd (zoomLevels s)), VNum (hd (zoomLevels s))]]\<rparr>"
    using c z by (simp add: zoomIn_def setZoom_eq)
next
  assume a: "zoomLevels s \<noteq> [] \<and> getZoom s = int (length (zoomLevels s)) - 1"
  then have c: "currentZoomLevel s = int (length (zoomLevels s)) - 1" by (simp add: getZoom_def)
  from a have "nat (int (length (zoomLevels s)) - 1) = length (zoomLevels s) - 1" by simp
  with a have z: "zoomLevel_at (zoomLevels s) (int (length (zoomLevels s)) - 1) = VNum (last (zoomLevels s))"
    by (simp add: zoomLevel_at_def last_conv_nth)
  have m: "max 0 (min (int (length (zoomLevels s)) - 1) (int (length (zoomLevels s)) - 1 + 1))
             = int (length (zoomLevels s)) - 1"
    using a by simp
  have "s\<lparr>currentZoomLevel := int (length (zoomLevels s)) - 1\<rparr> = s" using c by simp
  then show "zoomOut s =
          s\<lparr>effects := effects s @ [Emit ''zoom.update''
            [VNum (last (zoomLevels s)), VNum (last (zoomLevels s))]]\<rparr>"
    using c z m by (simp add: zoomOut_def setZoom_eq)
qed

text \<open>At both ends of the default zoom levels.\<close>

theorem setZoom_always_emits_witness:
  "effects (setZoom demo 0) = [Emit ''zoom.update'' [VNum (Fin 512), VNum (Fin 512)]]
   \<and> setZoom demo 0 = demo\<lparr>effects := [Emit ''zoom.update'' [VNum (Fin 512), VNum (Fin 512)]]\<rparr>
   \<and> zoomIn demo = demo\<lparr>effects := [Emit ''zoom.update'' [VNum (Fin 512), VNum (Fin 512)]]\<rparr>
   \<and> zoomOut (demo\<lparr>currentZoomLevel := 3\<rparr>) =
       demo\<lparr>currentZoomLevel := 3,
            effects := [Emit ''zoom.update'' [VNum (Fin 4096), VNum (Fin 4096)]]\<rparr>"
  using setZoom_always_emits [of demo 0] setZoom_always_emits [of "demo\<lparr>currentZoomLevel := 3\<rparr>" 0]
  by (simp add: demo_def zoomLevel_at_def getZoom_def setZoom_current)

section \<open>Properties of removal\<close>

lemma layer_remove_None: "layer_remove xs x = None \<longleftrightarrow> x \<notin> set xs"
  by (induction xs) auto

lemma layer_remove_Some:
  "layer_remove xs x = Some i \<Longrightarrow>
     i < length xs \<and> xs ! i = x \<and> take i xs @ drop (Suc i) xs = remove1 x xs"
proof (induction xs arbitrary: i)
  case Nil
  then show ?case by simp
next
  case (Cons y ys)
  show ?case
  proof (cases "y = x")
    case True
    with Cons.prems show ?thesis by simp
  next
    case False
    with Cons.prems obtain j where j: "layer_remove ys x = Some j" and i: "i = Suc j"
      by auto
    from Cons.IH [OF j] i False show ?thesis by simp
  qed
qed

lemma splice_pop_found:
  assumes "layer_remove xs x = Some i"
  shows "splice_pop xs i = (Some x, remove1 x xs)"
proof -
  from layer_remove_Some [OF assms]
  have i: "i < length xs" and x: "xs ! i = x"
    and r: "take i xs @ drop (Suc i) xs = remove1 x xs" by simp_all
  from i have "drop i xs = xs ! i # drop (Suc i) xs" by (simp add: Cons_nth_drop_Suc)
  with x r show ?thesis by (simp add: splice_pop_def)
qed

lemma segments_remove_found:
  assumes "x \<in> set (segments s)"
  shows "segments_remove s x =
           (Inr (Some x),
            s\<lparr>segments := remove1 x (segments s), effects := effects s @ [UpdateSegments]\<rparr>)"
proof -
  from assms obtain i where i: "layer_remove (segments s) x = Some i"
    using layer_remove_None [of "segments s" x] by (cases "layer_remove (segments s) x") auto
  show ?thesis by (simp add: segments_remove_def i splice_pop_found [OF i])
qed

lemma segments_remove_missing:
  assumes "x \<notin> set (segments s)"
  shows "segments_remove s x =
           (Inl (RangeError ''Unable to find the requested segment[object Object]''), s)"
  using assms by (simp add: segments_remove_def layer_remove_None [symmetric])

lemma forEach_segments_remove:
  assumes "\<And>z. z \<in> set zs \<Longrightarrow> \<not> P z" and "segments s = zs @ xs"
  shows "forEach (\<lambda>segment s. segments_remove s segment) (filter P xs) s =
           (Inr (),
            s\<lparr>segments := zs @ filter (\<lambda>x. \<not> P x) xs,
              effects := effects s @ replicate (length (filter P xs)) UpdateSegments\<rparr>)"
  using assms
proof (induction xs arbitrary: zs s)
  case Nil
  then show ?case by simp
next
  case (Cons x xs)
  show ?case
  proof (cases "P x")
    case True
    with Cons.prems(1) have notin: "x \<notin> set zs" by blast
    let ?s1 = "s\<lparr>segments := remove1 x (segments s), effects := effects s @ [UpdateSegments]\<rparr>"
    from Cons.prems(2) have "x \<in> set (segments s)" by simp
    then have step: "segments_remove s x = (Inr (Some x), ?s1)" by (rule segments_remove_found)
    from Cons.prems(2) notin have seg1: "segments ?s1 = zs @ xs" by (simp add: remove1_append)
    from Cons.IH [of zs ?s1, OF Cons.prems(1) seg1] True step
    show ?thesis by (simp add: replicate_append_same)
  next
    case False
    from Cons.prems(1) False have p: "\<And>z. z \<in> set (zs @ [x]) \<Longrightarrow> \<not> P z" by auto
    from Cons.prems(2) have seg: "segments s = (zs @ [x]) @ xs" by simp
    from Cons.IH [of "zs @ [x]" s, OF p seg] False show ?thesis by simp
  qed
qed

lemma forEach_segments_remove_all:
  "forEach (\<lambda>segment s. segments_remove s segment) (filter P (segments s)) s =
     (Inr (),
      s\<lparr>segments := filter (\<lambda>x. \<not> P x) (segments s),
        effects := effects s @ replicate (length (filter P (segments s))) UpdateSegments\<rparr>)"
  using forEach_segments_remove [of "[]" P s "segments s"] by simp

lemma points_remove_found:
  assumes "x \<in> set (points s)"
  shows "points_remove s x =
           (Inr (Some x),
            s\<lparr>points := remove1 x (points s), effects := effects s @ [PointsRender]\<rparr>)"
proof -
  from assms obtain i where i: "layer_remove (points s) x = Some i"
    using layer_remove_None [of "points s" x] by (cases "layer_remove (points s) x") auto
  show ?thesis by (simp add: points_remove_def i splice_pop_found [OF i])
qed

lemma points_remove_missing:
  assumes "x \<notin> set (points s)"
  shows "points_remove s x =
           (Inl (RangeError ''Unable to find the requested point[object Object]''), s)"
  using assms by (simp add: points_remove_def layer_remove_None [symmetric])

lemma forEach_points_remove:
  assumes "\<And>z. z \<in> set zs \<Longrightarrow> \<not> P z" and "points s = zs @ xs"
  shows "forEach (\<lambda>point s. points_remove s point) (filter P xs) s =
           (Inr (),
            s\<lparr>points := zs @ filter (\<lambda>x. \<not> P x) xs,
              effects := effects s @ replicate (length (filter P xs)) PointsRender\<rparr>)"
  using assms
proof (induction xs arbitrary: zs s)
  case Nil
  then show ?case by simp
next
  case (Cons x xs)
  show ?case
  proof (cases "P x")
    case True
    with Cons.prems(1) have notin: "x \<notin> set zs" by blast
    let ?s1 = "s\<lparr>points := remove1 x (points s), effects := effects s @ [PointsRender]\<rparr>"
    from Cons.prems(2) have "x \<in> set (points s)" by simp
    then have step: "points_remove s x = (Inr (Some x), ?s1)" by (rule points_remove_found)
    from Cons.prems(2) notin have pts1: "points ?s1 = zs @ xs" by (simp add: remove1_append)
    from Cons.IH [of zs ?s1, OF Cons.prems(1) pts1] True step
    show ?thesis by (simp add: replicate_append_same)
  next
    case False
    from Cons.prems(1) False have p: "\<And>z. z \<in> set (zs @ [x]) \<Longrightarrow> \<not> P z" by auto
    from Cons.prems(2) have pts: "points s = (zs @ [x]) @ xs" by simp
    from Cons.IH [of "zs @ [x]" s, OF p pts] False show ?thesis by simp
  qed
qed

lemma forEach_points_remove_all:
  "forEach (\<lambda>point s. points_remove s point) (filter P (points s)) s =
     (Inr (),
      s\<lparr>points := filter (\<lambda>x. \<not> P x) (points s),
        effects := effects s @ replicate (length (filter P (points s))) PointsRender\<rparr>)"
  using forEach_points_remove [of "[]" P s "points s"] by simp

text \<open>
  Claim C3. For segments, \<open>removeByTime(startTime, endTime)\<close> with an end time that is
  not a number (none given) or is not positive removes exactly the stored segments whose
  \<open>startTime\<close> is \<open>===\<close> the given one; with a positive end time, exactly those whose
  \<open>startTime\<close> and \<open>endTime\<close> are both \<open>===\<close> the given ones. For points,
  \<open>removeByTime(timestamp)\<close> removes exactly the points whose \<open>timestamp\<close> is \<open>===\<close>
  the given one. The other records stay, in order; the call never throws and returns the
  number of matches.
\<close>

theorem removeByTime_exact:
  "((\<forall>n. endTime0 = VNum n \<longrightarrow> \<not> gt_zero n) \<longrightarrow>
      segments_removeByTime s startTime0 endTime0 =
        (Inr (length (filter (\<lambda>r. num_strict_eq (startTime (segmentObj s r)) startTime0) (segments s))),
         s\<lparr>segments :=
               filter (\<lambda>r. \<not> num_strict_eq (startTime (segmentObj s r)) startTime0) (segments s),
           effects := effects s @
               replicate
                 (length (filter (\<lambda>r. num_strict_eq (startTime (segmentObj s r)) startTime0) (segments s)))
                 UpdateSegments\<rparr>))
   \<and> (gt_zero n \<longrightarrow>
      segments_removeByTime s startTime0 (VNum n) =
        (Inr (length (filter (\<lambda>r. num_strict_eq (startTime (segmentObj s r)) startTime0 \<and>
                                   strict_eq_num (endTime (segmentObj s r)) n) (segments s))),
         s\<lparr>segments :=
               filter (\<lambda>r. \<not> (num_strict_eq (startTime (segmentObj s r)) startTime0 \<and>
                               strict_eq_num (endTime (segmentObj s r)) n)) (segments s),
           effects := effects s @
               replicate
                 (length (filter (\<lambda>r. num_strict_eq (startTime (segmentObj s r)) startTime0 \<and>
                                   strict_eq_num (endTime (segmentObj s r)) n) (segments s)))
                 UpdateSegments\<rparr>))
   \<and> points_removeByTime s timestamp0 =
        (Inr (length (filter (\<lambda>r. num_strict_eq (timestamp (pointObj s r)) timestamp0) (points s))),
         s\<lparr>points :=
               filter (\<lambda>r. \<not> num_strict_eq (timestamp (pointObj s r)) timestamp0) (points s),
           effects := effects s @
               replicate
                 (length (filter (\<lambda>r. num_strict_eq (timestamp (pointObj s r)) timestamp0) (points s)))
                 PointsRender\<rparr>)"
proof (intro conjI impI)
  assume np: "\<forall>n. endTime0 = VNum n \<longrightarrow> \<not> gt_zero n"
  have "\<not> (case (if typeof endTime0 = ''number'' then endTime0 else VNum (Fin 0)) of
              VNum n \<Rightarrow> gt_zero n | _ \<Rightarrow> False)"
    using np by (cases endTime0) simp_all
  then show "segments_removeByTime s startTime0 endTime0 =
        (Inr (length (filter (\<lambda>r. num_strict_eq (startTime (segmentObj s r)) startTime0) (segments s))),
         s\<lparr>segments :=
               filter (\<lambda>r. \<not> num_strict_eq (startTime (segmentObj s r)) startTime0) (segments s),
           effects := effects s @
               replicate
                 (length (filter (\<lambda>r. num_strict_eq (startTime (segmentObj s r)) startTime0) (segments s)))
                 UpdateSegments\<rparr>)"
    unfolding segments_removeByTime_def Let_def
    by (simp only: if_False forEach_segments_remove_all) simp
next
  assume "gt_zero n"
  then show "segments_removeByTime s startTime0 (VNum n) =
        (Inr (length (filter (\<lambda>r. num_strict_eq (startTime (segmentObj s r)) startTime0 \<and>
                                   strict_eq_num (endTime (segmentObj s r)) n) (segments s))),
         s\<lparr>segments :=
               filter (\<lambda>r. \<not> (num_strict_eq (startTime (segmentObj s r)) startTime0 \<and>
                               strict_eq_num (endTime (segmentObj s r)) n)) (segments s),
           effects := effects s @
               replicate
                 (length (filter (\<lambda>r. num_strict_eq (startTime (segmentObj s r)) startTime0 \<and>
                                   strict_eq_num (endTime (segmentObj s r)) n) (segments s)))
                 UpdateSegments\<rparr>)"
    unfolding segments_removeByTime_def Let_def
    by (simp add: forEach_segments_remove_all)
next
  show "points_removeByTime s timestamp0 =
        (Inr (length (filter (\<lambda>r. num_strict_eq (timestamp (pointObj s r)) timestamp0) (points s))),
         s\<lparr>points :=
               filter (\<lambda>r. \<not> num_strict_eq (timestamp (pointObj s r)) timestamp0) (points s),
           effects := effects s @
               replicate
                 (length (filter (\<lambda>r. num_strict_eq (timestamp (pointObj s r)) timestamp0) (points s)))
                 PointsRender\<rparr>)"
    unfolding points_removeByTime_def Let_def
    by (simp add: forEach_points_remove_all)
qed

lemma annotated_simps:
  "segments annotated = [10, 20, 30]" "points annotated = [40, 50]" "effects annotated = []"
  "segmentObj annotated 10 = \<lparr>seg_id = IdStr ''a'', startTime = Fin 10, endTime = Fin 20\<rparr>"
  "segmentObj annotated 20 = \<lparr>seg_id = IdStr ''b'', startTime = Fin 10, endTime = Fin 30\<rparr>"
  "segmentObj annotated 30 = \<lparr>seg_id = IdStr ''a'', startTime = Fin 15, endTime = Fin 20\<rparr>"
  "pointObj annotated 40 = \<lparr>point_id = IdNum (Fin 7), timestamp = Fin 2.5\<rparr>"
  "pointObj annotated 50 = \<lparr>point_id = IdNum (Fin 8), timestamp = Fin 4\<rparr>"
  by (simp_all add: annotated_def demo_def)

text \<open>
  Segments \<open>{10, 20}\<close>, \<open>{10, 30}\<close> and \<open>{15, 20}\<close>: \<open>removeByTime(10)\<close> removes two,
  \<open>removeByTime(10, 20)\<close> one; of the points at 2.5 and 4, \<open>removeByTime(4)\<close> removes one
  and \<open>removeByTime(3)\<close> none.
\<close>

theorem removeByTime_exact_witness:
  "segments_removeByTime annotated (VNum (Fin 10)) VUndefined =
     (Inr 2, annotated\<lparr>segments := [30], effects := [UpdateSegments, UpdateSegments]\<rparr>)
   \<and> segments_removeByTime annotated (VNum (Fin 10)) (VNum (Fin 20)) =
     (Inr 1, annotated\<lparr>segments := [20, 30], effects := [UpdateSegments]\<rparr>)
   \<and> points_removeByTime annotated (VNum (Fin 4)) =
     (Inr 1, annotated\<lparr>points := [40], effects := [PointsRender]\<rparr>)
   \<and> points_removeByTime annotated (VNum (Fin 3)) = (Inr 0, annotated)"
proof -
  have np: "\<forall>n. VUndefined = VNum n \<longrightarrow> \<not> gt_zero n" by simp
  have pos: "gt_zero (Fin 20)" by simp
  note thm1 = removeByTime_exact [of VUndefined annotated "VNum (Fin 10)" "Fin 20" "VNum (Fin 4)"]
  note thm2 = removeByTime_exact [of VUndefined annotated "VNum (Fin 10)" "Fin 20" "VNum (Fin 3)"]
  from thm1 np have a: "segments_removeByTime annotated (VNum (Fin 10)) VUndefined =
     (Inr 2, annotated\<lparr>segments := [30], effects := [UpdateSegments, UpdateSegments]\<rparr>)"
    by (simp add: annotated_simps strict_eq_num_def)
  from thm1 pos have b: "segments_removeByTime annotated (VNum (Fin 10)) (VNum (Fin 20)) =
     (Inr 1, annotated\<lparr>segments := [20, 30], effects := [UpdateSegments]\<rparr>)"
    by (simp add: annotated_simps strict_eq_num_def)
  from thm1 have c: "points_removeByTime annotated (VNum (Fin 4)) =
     (Inr 1, annotated\<lparr>points := [40], effects := [PointsRender]\<rparr>)"
    by (simp add: annotated_simps strict_eq_num_def)
  have "annotated\<lparr>points := [40, 50], effects := []\<rparr> = annotated"
    by (simp add: annotated_def demo_def)
  with thm2 have d: "points_removeByTime annotated (VNum (Fin 3)) = (Inr 0, annotated)"
    by (simp add: annotated_simps strict_eq_num_def)
  from a b c d show ?thesis by blast
qed

text \<open>
  Claim C4. \<open>remove\<close> of a record that is not stored throws a \<open>RangeError\<close> and leaves
  the instance as it is; \<open>remove\<close> of a stored record takes (the first entry of) it out of
  the stored sequence and returns it. For segments and for points.
\<close>

theorem remove_found_or_range_error:
  "(x \<notin> set (segments s) \<longrightarrow>
      segments_remove s x =
        (Inl (RangeError ''Unable to find the requested segment[object Object]''), s))
   \<and> (x \<in> set (segments s) \<longrightarrow>
      segments_remove s x =
        (Inr (Some x),
         s\<lparr>segments := remove1 x (segments s), effects := effects s @ [UpdateSegments]\<rparr>))
   \<and> (x \<notin> set (points s) \<longrightarrow>
      points_remove s x =
        (Inl (RangeError ''Unable to find the requested point[object Object]''), s))
   \<and> (x \<in> set (points s) \<longrightarrow>
      points_remove s x =
        (Inr (Some x),
         s\<lparr>points := remove1 x (points s), effects := effects s @ [PointsRender]\<rparr>))"
  using segments_remove_missing [of x s] segments_remove_found [of x s]
        points_remove_missing [of x s] points_remove_found [of x s]
  by blast

text \<open>Removing a stored segment and a stored point, and asking each layer for the other's.\<close>

theorem remove_found_or_range_error_witness:
  "segments_remove annotated 20 =
     (Inr (Some 20), annotated\<lparr>segments := [10, 30], effects := [UpdateSegments]\<rparr>)
   \<and> segments_remove annotated 40 =
     (Inl (RangeError ''Unable to find the requested segment[object Object]''), annotated)
   \<and> points_remove annotated 40 =
     (Inr (Some 40), annotated\<lparr>points := [50], effects := [PointsRender]\<rparr>)
   \<and> points_remove annotated 20 =
     (Inl (RangeError ''Unable to find the requested point[object Object]''), annotated)"
  using remove_found_or_range_error [of 20 annotated] remove_found_or_range_error [of 40 annotated]
  by (simp add: annotated_simps)

text \<open>
  Claim C9. \<open>removeById(id)\<close> never throws; after it the stored sequence holds exactly
  the records whose \<open>id\<close> is not \<open>===\<close> the given one, in order; when no record matches,
  the instance is as before. For segments and for points.
\<close>

theorem removeById_all_matches:
  "segments_removeById s i =
     (Inr (),
      s\<lparr>segments := filter (\<lambda>r. \<not> strict_eq_id (seg_id (segmentObj s r)) i) (segments s),
        effects := effects s @
          replicate (length (filter (\<lambda>r. strict_eq_id (seg_id (segmentObj s r)) i) (segments s)))
            UpdateSegments\<rparr>)
   \<and> ((\<forall>r \<in> set (segments s). \<not> strict_eq_id (seg_id (segmentObj s r)) i) \<longrightarrow>
        segments_removeById s i = (Inr (), s))
   \<and> points_removeById s i =
     (Inr (),
      s\<lparr>points := filter (\<lambda>r. \<not> strict_eq_id (point_id (pointObj s r)) i) (points s),
        effects := effects s @
          replicate (length (filter (\<lambda>r. strict_eq_id (point_id (pointObj s r)) i) (points s)))
            PointsRender\<rparr>)
   \<and> ((\<forall>r \<in> set (points s). \<not> strict_eq_id (point_id (pointObj s r)) i) \<longrightarrow>
        points_removeById s i = (Inr (), s))"
proof (intro conjI impI)
  show seg: "segments_removeById s i =
     (Inr (),
      s\<lparr>segments := filter (\<lambda>r. \<not> strict_eq_id (seg_id (segmentObj s r)) i) (segments s),
        effects := effects s @
          replicate (length (filter (\<lambda>r. strict_eq_id (seg_id (segmentObj s r)) i) (segments s)))
            UpdateSegments\<rparr>)"
    unfolding segments_removeById_def by (rule forEach_segments_remove_all)
  show pts: "points_removeById s i =
     (Inr (),
      s\<lparr>points := filter (\<lambda>r. \<not> strict_eq_id (point_id (pointObj s r)) i) (points s),
        effects := effects s @
          replicate (length (filter (\<lambda>r. strict_eq_id (point_id (pointObj s r)) i) (points s)))
            PointsRender\<rparr>)"
    unfolding points_removeById_def by (rule forEach_points_remove_all)
  {
    assume "\<forall>r \<in> set (segments s). \<not> strict_eq_id (seg_id (segmentObj s r)) i"
    then have "filter (\<lambda>r. strict_eq_id (seg_id (segmentObj s r)) i) (segments s) = []"
      and "filter (\<lambda>r. \<not> strict_eq_id (seg_id (segmentObj s r)) i) (segments s) = segments s"
      by (simp_all add: filter_empty_conv filter_id_conv)
    with seg show "segments_removeById s i = (Inr (), s)" by simp
  }
  {
    assume "\<forall>r \<in> set (points s). \<not> strict_eq_id (point_id (pointObj s r)) i"
    then have "filter (\<lambda>r. strict_eq_id (point_id (pointObj s r)) i) (points s) = []"
      and "filter (\<lambda>r. \<not> strict_eq_id (point_id (pointObj s r)) i) (points s) = points s"
      by (simp_all add: filter_empty_conv filter_id_conv)
    with pts show "points_removeById s i = (Inr (), s)" by simp
  }
qed

text \<open>Two segments share the id \<open>a\<close>; no record has the id \<open>zz\<close>, and the string \<open>8\<close> is not the number 8.\<close>

theorem removeById_all_matches_witness:
  "segments_removeById annotated (IdStr ''a'') =
     (Inr (), annotated\<lparr>segments := [20], effects := [UpdateSegments, UpdateSegments]\<rparr>)
   \<and> segments_removeById annotated (IdStr ''zz'') = (Inr (), annotated)
   \<and> points_removeById annotated (IdNum (Fin 8)) =
     (Inr (), annotated\<lparr>points := [40], effects := [PointsRender]\<rparr>)
   \<and> points_removeById annotated (IdStr ''8'') = (Inr (), annotated)"
proof -
  have nos: "\<forall>r \<in> set (segments annotated). \<not> strict_eq_id (seg_id (segmentObj annotated r)) (IdStr ''zz'')"
    by (simp add: annotated_simps)
  have nop: "\<forall>r \<in> set (points annotated). \<not> strict_eq_id (point_id (pointObj annotated r)) (IdStr ''8'')"
    by (simp add: annotated_simps)
  from removeById_all_matches [of annotated "IdStr ''a''"]
  have a: "segments_removeById annotated (IdStr ''a'') =
     (Inr (), annotated\<lparr>segments := [20], effects := [UpdateSegments, UpdateSegments]\<rparr>)"
    by (simp add: annotated_simps)
  from removeById_all_matches [of annotated "IdStr ''zz''"] nos
  have b: "segments_removeById annotated (IdStr ''zz'') = (Inr (), annotated)" by blast
  from removeById_all_matches [of annotated "IdNum (Fin 8)"]
  have c: "points_removeById annotated (IdNum (Fin 8)) =
     (Inr (), annotated\<lparr>points := [40], effects := [PointsRender]\<rparr>)"
    by (simp add: annotated_simps strict_eq_num_def)
  from removeById_all_matches [of annotated "IdStr ''8''"] nop
  have d: "points_removeById annotated (IdStr ''8'') = (Inr (), annotated)" by blast
  from a b c d show ?thesis by blast
qed

section \<open>Properties of batch add\<close>


















section \<open>Properties of initialisation\<close>

text \<open>
  Claim C6, amended. \<open>Peaks.init\<close> throws, and returns no instance, whenever the media
  element (the \<open>audioElement\<close> option when that is given, the \<open>mediaElement\<close> option
  otherwise) is missing or is not an \<open>HTMLMediaElement\<close>, the container is missing or
  its \<open>clientWidth\<close> is not greater than \<open>0\<close>, or the logger is a truthy value that is
  not a function. The first failing check, in this order, decides the error thrown.
\<close>

theorem init_fails_fast:
  fixes opts :: init_options
  defines "media \<equiv> (if truthy (opt_audioElement opts) then opt_audioElement opts
                      else opt_mediaElement opts)"
  shows "(\<not> truthy media \<longrightarrow>
            fst (init conv opts) = Inl (Error ''[Peaks.init] Please provide an audio element.''))
       \<and> (truthy media \<and> \<not> instanceof_HTMLMediaElement media \<longrightarrow>
            fst (init conv opts) =
              Inl (TypeError ''[Peaks.init] The mediaElement option should be an HTMLMediaElement.''))
       \<and> (instanceof_HTMLMediaElement media \<and> \<not> truthy (opt_container opts) \<longrightarrow>
            fst (init conv opts) = Inl (Error ''[Peaks.init] Please provide a container object.''))
       \<and> (instanceof_HTMLMediaElement media \<and> truthy (opt_container opts) \<and>
          \<not> gt_zero (to_number conv (clientWidth (opt_container opts))) \<longrightarrow>
            fst (init conv opts) =
              Inl (TypeError ''[Peaks.init] Please ensure that the container has a width.''))
       \<and> (instanceof_HTMLMediaElement media \<and> truthy (opt_container opts) \<and>
          gt_zero (to_number conv (clientWidth (opt_container opts))) \<and>
          truthy (opt_logger opts) \<and> typeof (opt_logger opts) \<noteq> ''function'' \<longrightarrow>
            fst (init conv opts) =
              Inl (TypeError ''[Peaks.init] The `logger` option should be a function.''))
       \<and> (\<not> truthy media \<or> \<not> instanceof_HTMLMediaElement media \<or>
          \<not> truthy (opt_container opts) \<or>
          \<not> gt_zero (to_number conv (clientWidth (opt_container opts))) \<or>
          (truthy (opt_logger opts) \<and> typeof (opt_logger opts) \<noteq> ''function'') \<longrightarrow>
            (\<exists>message. fst (init conv opts) = Inl (Error message) \<or>
                       fst (init conv opts) = Inl (TypeError message)))"
proof -
  have media_truthy: "instanceof_HTMLMediaElement v \<Longrightarrow> truthy v" for v
    by (cases v) simp_all
  show ?thesis
    unfolding media_def init_def Let_def clientWidth_positive_def
    using media_truthy by (auto simp add: split_def)
qed

text \<open>
  One defect at a time, on otherwise valid options; the width is read from an element
  and from a plain object.
\<close>

theorem init_fails_fast_witness:
  "fst (init no_conversion (valid_options\<lparr>opt_mediaElement := VUndefined\<rparr>)) =
     Inl (Error ''[Peaks.init] Please provide an audio element.'')
   \<and> fst (init no_conversion (valid_options\<lparr>opt_mediaElement := VElem False (Fin 300)\<rparr>)) =
     Inl (TypeError ''[Peaks.init] The mediaElement option should be an HTMLMediaElement.'')
   \<and> fst (init no_conversion (valid_options\<lparr>opt_container := VNull\<rparr>)) =
     Inl (Error ''[Peaks.init] Please provide a container object.'')
   \<and> fst (init no_conversion (valid_options\<lparr>opt_container := VElem False (Fin 0)\<rparr>)) =
     Inl (TypeError ''[Peaks.init] Please ensure that the container has a width.'')
   \<and> fst (init no_conversion
        (valid_options\<lparr>opt_container := VObj [(''clientWidth'', VNum (Fin (- 5)))]\<rparr>)) =
     Inl (TypeError ''[Peaks.init] Please ensure that the container has a width.'')
   \<and> fst (init no_conversion (valid_options\<lparr>opt_container := VObj []\<rparr>)) =
     Inl (TypeError ''[Peaks.init] Please ensure that the container has a width.'')
   \<and> fst (init no_conversion
        (valid_options\<lparr>opt_container := VObj [(''clientWidth'', VNum (Fin 100))],
                       opt_logger := VStr ''verbose''\<rparr>)) =
     Inl (TypeError ''[Peaks.init] The `logger` option should be a function.'')"
  using init_fails_fast [of "valid_options\<lparr>opt_mediaElement := VUndefined\<rparr>" no_conversion]
        init_fails_fast [of "valid_options\<lparr>opt_mediaElement := VElem False (Fin 300)\<rparr>" no_conversion]
        init_fails_fast [of "valid_options\<lparr>opt_container := VNull\<rparr>" no_conversion]
        init_fails_fast [of "valid_options\<lparr>opt_container := VElem False (Fin 0)\<rparr>" no_conversion]
        init_fails_fast [of "valid_options\<lparr>opt_container := VObj [(''clientWidth'', VNum (Fin (- 5)))]\<rparr>"
          no_conversion]
        init_fails_fast [of "valid_options\<lparr>opt_container := VObj []\<rparr>" no_conversion]
        init_fails_fast [of "valid_options\<lparr>opt_container := VObj [(''clientWidth'', VNum (Fin 100))],
                                           opt_logger := VStr ''verbose''\<rparr>" no_conversion]
  by (simp add: valid_options_def)

text \<open>
  With the empty string as the logger, a value that was supplied and cannot be called,
  \<open>Peaks.init\<close> throws nothing: it returns an instance whose logger is \<open>console.error\<close>.
\<close>

theorem falsy_logger_counterexample:
  "opt_logger empty_string_logger = VStr []
   \<and> typeof (opt_logger empty_string_logger) = ''string''
   \<and> init no_conversion empty_string_logger = (Inr (new_instance empty_string_logger), [])
   \<and> logger (new_instance empty_string_logger) = console_error"
  by (simp add: empty_string_logger_def valid_options_def init_def new_instance_def
      default_template_def clientWidth_positive_def Let_def)

end
